theory Spec2Isabelle
  imports Main
begin

section \<open>The insert query builder of kysely\<close>

text \<open>
  A shallow embedding of \<^verbatim>\<open>src/query-builder/insert-query-builder.ts\<close>.

  The class \<^verbatim>\<open>InsertQueryBuilder\<close> holds one private, frozen object
  \<^verbatim>\<open>#props = {queryId, queryNode, executor}\<close>. Its chainable methods
  build a new node and a new builder; its terminal methods call the executor.
  Several statements about it speak of object identity ("a new builder", "not the
  same reference"), so objects live in a store: a builder and a query node are
  addresses, and creating an object appends it to the store. Calls made to the
  executor are recorded in a log, in the order the code makes them.
\<close>

subsection \<open>Data that the builder passes through\<close>

text \<open>
  Modelled from the spec: the operation nodes below the insert root (table, column,
  value, conflict and returning nodes), which the \<^verbatim>\<open>operation-node\<close> modules define.
  The spec (3, "Operation Node") describes a node as a tagged immutable tree whose
  children are nodes. The builder never looks inside them.
\<close>

datatype operation_node =
  OperationNode (kind: string) (label: string) (children: "operation_node list")

text \<open>A JavaScript value of a result row or of a bind parameter.\<close>

datatype jsvalue = JNull | JNum int | JStr string

type_synonym row = "(string \<times> jsvalue) list"

text \<open>\<^verbatim>\<open>QueryId\<close>: the opaque identity token of a query.\<close>

datatype query_id = QueryId string

text \<open>
  Modelled from the spec: \<^verbatim>\<open>InsertQueryNode\<close> (spec 3, "Insert Query Root"):
  target table, target columns, values source, ignore flag, conflict clause,
  duplicate-key clause, returning clause; and the explain node that
  \<^verbatim>\<open>QueryNode.cloneWithExplain\<close> attaches. A field the JavaScript object may
  lack is an option.
\<close>

record insert_query_node =
  node_into :: operation_node
  node_columns :: "operation_node list option"
  node_values :: "operation_node option"
  node_returning :: "operation_node option"
  node_onConflict :: "operation_node option"
  node_onDuplicateKey :: "operation_node option"
  node_ignore :: "bool option"
  node_explain :: "operation_node option"

text \<open>\<^verbatim>\<open>CompiledQuery\<close>: the SQL, its parameters and the node it was compiled from.\<close>

record compiled_query =
  query :: insert_query_node
  sql :: string
  parameters :: "jsvalue list"

text \<open>\<^verbatim>\<open>QueryResult\<close>: what the driver reports for one query, or for one chunk of a stream.\<close>

record query_result =
  insertId :: "int option"
  numAffectedRows :: "int option"
  numUpdatedOrDeletedRows :: "int option"
  rows :: "row list"

text \<open>\<^verbatim>\<open>InsertResult\<close>: the object \<^verbatim>\<open>execute\<close> builds when it does not return rows.\<close>

datatype insert_result =
  InsertResult (result_insertId: "int option") (result_numInsertedOrUpdatedRows: "int option")

text \<open>
  An element of the array \<^verbatim>\<open>execute\<close> returns: a row of the driver, or the
  \<^verbatim>\<open>InsertResult\<close> object.
\<close>

datatype output_row = Row row | Inserted insert_result

text \<open>
  What the code throws. \<^verbatim>\<open>NoResultError\<close> is constructed from a node; every
  other error (of a driver, of a caller) is an \<^verbatim>\<open>Error\<close> with a message.
\<close>

datatype error = NoResultError insert_query_node | Error string

text \<open>
  The argument of \<^verbatim>\<open>executeTakeFirstOrThrow\<close>: its type is the union
  \<^verbatim>\<open>NoResultErrorConstructor | ((node: QueryNode) => Error)\<close>, and
  \<^verbatim>\<open>isNoResultErrorConstructor\<close> tells the two apart. A class is given by what
  \<^verbatim>\<open>new\<close> builds from the node.
\<close>

datatype error_argument =
  ErrorConstructor "insert_query_node \<Rightarrow> error"
  | ErrorCallback "insert_query_node \<Rightarrow> error"

text \<open>
  An asynchronous iterator, run to its end: it yields values and then either finishes
  or throws.
\<close>

datatype 'a async_iterator =
  Done
  | Throw error
  | Yield 'a "'a async_iterator"

text \<open>\<^verbatim>\<open>KyselyPlugin\<close>: the two hooks of a plugin.\<close>

record plugin =
  plugin_transformQuery :: "insert_query_node \<Rightarrow> query_id \<Rightarrow> insert_query_node"
  plugin_transformResult :: "query_result \<Rightarrow> query_id \<Rightarrow> query_result"

text \<open>
  \<^verbatim>\<open>QueryExecutor\<close>: the interface the builder calls. The builder knows nothing
  of its implementation, so an executor is any object with these members, and the
  theorems below hold for every executor. \<^verbatim>\<open>transformQuery\<close>,
  \<^verbatim>\<open>compileQuery\<close> and \<^verbatim>\<open>withPlugin\<close> are synchronous and return a value;
  \<^verbatim>\<open>executeQuery\<close> and \<^verbatim>\<open>stream\<close> are the asynchronous driver round trips
  and may fail. \<^verbatim>\<open>exec_supportsReturning\<close> is \<^verbatim>\<open>adapter.supportsReturning\<close>.
\<close>

codatatype executor = Executor
  (exec_supportsReturning: bool)
  (exec_transformQuery: "insert_query_node \<Rightarrow> query_id \<Rightarrow> insert_query_node")
  (exec_compileQuery: "insert_query_node \<Rightarrow> query_id \<Rightarrow> compiled_query")
  (exec_executeQuery: "compiled_query \<Rightarrow> query_id \<Rightarrow> error + query_result")
  (exec_stream: "compiled_query \<Rightarrow> int \<Rightarrow> query_id \<Rightarrow> query_result async_iterator")
  (exec_withPlugin: "plugin \<Rightarrow> executor")

text \<open>A call the builder makes to its executor, with the arguments it passes.\<close>

datatype executor_call =
  TransformQuery insert_query_node query_id
  | CompileQuery insert_query_node query_id
  | ExecuteQuery compiled_query query_id
  | Stream compiled_query int query_id

subsection \<open>The store\<close>

text \<open>\<^verbatim>\<open>InsertQueryBuilderProps\<close>; \<^verbatim>\<open>queryNode\<close> is a reference to a node.\<close>

record insert_query_builder_props =
  queryId :: query_id
  queryNode :: nat
  executor :: executor

text \<open>
  The store: the frozen nodes and the builders allocated so far (an address is an
  index), and the log of executor calls.
\<close>

record world =
  nodes :: "insert_query_node list"
  builders :: "insert_query_builder_props list"
  calls :: "executor_call list"

text \<open>
  Modelled from the spec: the Node Model's clone-with functions never change their
  input and return a new node (spec 4.1). \<^verbatim>\<open>freeze_node\<close> is that allocation.
\<close>

definition freeze_node :: "insert_query_node \<Rightarrow> world \<Rightarrow> nat \<times> world" where
  "freeze_node n w = (length (nodes w), w\<lparr>nodes := nodes w @ [n]\<rparr>)"

text \<open>
  Modelled from the spec: \<^verbatim>\<open>InsertQueryNode.cloneWith(node, props)\<close> returns a new
  node "with overridden fields replaced and all other fields copied unchanged" (spec
  4.1). The overrides are given as the update of the fields they name.
\<close>

definition InsertQueryNode_cloneWith ::
  "nat \<Rightarrow> (insert_query_node \<Rightarrow> insert_query_node) \<Rightarrow> world \<Rightarrow> nat \<times> world" where
  "InsertQueryNode_cloneWith insertQuery props w = freeze_node (props (nodes w ! insertQuery)) w"

text \<open>
  Modelled from the spec: \<^verbatim>\<open>QueryNode.cloneWithReturning\<close> and
  \<^verbatim>\<open>QueryNode.cloneWithExplain\<close> are clone-with functions too (spec 4.1, 4.3).
  The fields of the node they return are not described, so the function from the old
  fields and the arguments to the new fields is a parameter.
\<close>

definition QueryNode_cloneWith ::
  "(insert_query_node \<Rightarrow> 'a \<Rightarrow> insert_query_node) \<Rightarrow> nat \<Rightarrow> 'a \<Rightarrow> world \<Rightarrow> nat \<times> world" where
  "QueryNode_cloneWith clone node arg w = freeze_node (clone (nodes w ! node) arg) w"

text \<open>The constructor: \<^verbatim>\<open>this.#props = freeze(props)\<close> in a new object.\<close>

definition new_InsertQueryBuilder :: "insert_query_builder_props \<Rightarrow> world \<Rightarrow> nat \<times> world" where
  "new_InsertQueryBuilder props w = (length (builders w), w\<lparr>builders := builders w @ [props]\<rparr>)"

text \<open>\<^verbatim>\<open>this.#props\<close>.\<close>

definition this_props :: "world \<Rightarrow> nat \<Rightarrow> insert_query_builder_props" where
  "this_props w this = builders w ! this"

text \<open>
  In the program a reference always denotes an object. A builder reference is valid
  in a store when it and the node it refers to are allocated there.
\<close>

definition valid_builder :: "world \<Rightarrow> nat \<Rightarrow> bool" where
  "valid_builder w b = (b < length (builders w) \<and> queryNode (this_props w b) < length (nodes w))"

text \<open>Recording a call to the executor.\<close>

definition record_call :: "executor_call \<Rightarrow> world \<Rightarrow> world" where
  "record_call c w = w\<lparr>calls := calls w @ [c]\<rparr>"

subsection \<open>Node constructors and the conflict builder\<close>

text \<open>
  Modelled from the spec: \<^verbatim>\<open>ColumnNode.create\<close>, \<^verbatim>\<open>OnConflictNode.create\<close> and
  \<^verbatim>\<open>OnDuplicateKeyNode.create\<close> are construction functions of the Node Model
  (spec 4.1): each returns a node of its kind from the fields it is given.
\<close>

definition ColumnNode_create :: "string \<Rightarrow> operation_node" where
  "ColumnNode_create column = OperationNode ''ColumnNode'' column []"

definition OnConflictNode_create :: operation_node where
  "OnConflictNode_create = OperationNode ''OnConflictNode'' [] []"

definition OnDuplicateKeyNode_create :: "operation_node list \<Rightarrow> operation_node" where
  "OnDuplicateKeyNode_create updates = OperationNode ''OnDuplicateKeyNode'' [] updates"

text \<open>
  Modelled from the spec: \<^verbatim>\<open>OnConflictBuilder\<close>, the sub-builder of the conflict
  clause (spec 2, 3): it holds the conflict node, and \<^verbatim>\<open>toOperationNode\<close> returns it.
\<close>

datatype on_conflict_builder = OnConflictBuilder (onConflictNode: operation_node)

definition OnConflictBuilder_toOperationNode :: "on_conflict_builder \<Rightarrow> operation_node" where
  "OnConflictBuilder_toOperationNode b = onConflictNode b"

subsection \<open>The chainable methods\<close>

text \<open>
  Each method reads \<^verbatim>\<open>this.#props\<close>, builds the new node with a clone-with
  function and returns \<^verbatim>\<open>new InsertQueryBuilder({...this.#props, queryNode: ...})\<close>.
  The parsers (\<^verbatim>\<open>parseInsertExpression\<close>, \<^verbatim>\<open>parseExpression\<close>,
  \<^verbatim>\<open>parseUpdateExpression\<close>, \<^verbatim>\<open>parseSelectArg\<close>, \<^verbatim>\<open>parseSelectAll\<close>) belong
  to the \<^verbatim>\<open>parser\<close> modules: each is a parameter, a function of the caller's input.
\<close>

definition values_method ::
  "('i \<Rightarrow> operation_node list \<times> operation_node) \<Rightarrow> 'i \<Rightarrow> nat \<Rightarrow> world \<Rightarrow> nat \<times> world" where
  "values_method parseInsertExpression ins this w =
     (case parseInsertExpression ins of (cols, vals) \<Rightarrow>
        (case InsertQueryNode_cloneWith (queryNode (this_props w this))
                (\<lambda>n. n\<lparr>node_columns := Some cols, node_values := Some vals\<rparr>) w of
           (node, w1) \<Rightarrow> new_InsertQueryBuilder ((this_props w this)\<lparr>queryNode := node\<rparr>) w1))"

definition columns :: "string list \<Rightarrow> nat \<Rightarrow> world \<Rightarrow> nat \<times> world" where
  "columns cols this w =
     (case InsertQueryNode_cloneWith (queryNode (this_props w this))
             (\<lambda>n. n\<lparr>node_columns := Some (map ColumnNode_create cols)\<rparr>) w of
        (node, w1) \<Rightarrow> new_InsertQueryBuilder ((this_props w this)\<lparr>queryNode := node\<rparr>) w1)"

definition expression :: "('e \<Rightarrow> operation_node) \<Rightarrow> 'e \<Rightarrow> nat \<Rightarrow> world \<Rightarrow> nat \<times> world" where
  "expression parseExpression expr this w =
     (case InsertQueryNode_cloneWith (queryNode (this_props w this))
             (\<lambda>n. n\<lparr>node_values := Some (parseExpression expr)\<rparr>) w of
        (node, w1) \<Rightarrow> new_InsertQueryBuilder ((this_props w this)\<lparr>queryNode := node\<rparr>) w1)"

definition ignore :: "nat \<Rightarrow> world \<Rightarrow> nat \<times> world" where
  "ignore this w =
     (case InsertQueryNode_cloneWith (queryNode (this_props w this))
             (\<lambda>n. n\<lparr>node_ignore := Some True\<rparr>) w of
        (node, w1) \<Rightarrow> new_InsertQueryBuilder ((this_props w this)\<lparr>queryNode := node\<rparr>) w1)"

definition onConflict ::
  "(on_conflict_builder \<Rightarrow> on_conflict_builder) \<Rightarrow> nat \<Rightarrow> world \<Rightarrow> nat \<times> world" where
  "onConflict callback this w =
     (case InsertQueryNode_cloneWith (queryNode (this_props w this))
             (\<lambda>n. n\<lparr>node_onConflict :=
                Some (OnConflictBuilder_toOperationNode
                        (callback (OnConflictBuilder OnConflictNode_create)))\<rparr>) w of
        (node, w1) \<Rightarrow> new_InsertQueryBuilder ((this_props w this)\<lparr>queryNode := node\<rparr>) w1)"

definition onDuplicateKeyUpdate ::
  "('u \<Rightarrow> operation_node list) \<Rightarrow> 'u \<Rightarrow> nat \<Rightarrow> world \<Rightarrow> nat \<times> world" where
  "onDuplicateKeyUpdate parseUpdateExpression update this w =
     (case InsertQueryNode_cloneWith (queryNode (this_props w this))
             (\<lambda>n. n\<lparr>node_onDuplicateKey :=
                Some (OnDuplicateKeyNode_create (parseUpdateExpression update))\<rparr>) w of
        (node, w1) \<Rightarrow> new_InsertQueryBuilder ((this_props w this)\<lparr>queryNode := node\<rparr>) w1)"

definition returning ::
  "(insert_query_node \<Rightarrow> operation_node list \<Rightarrow> insert_query_node) \<Rightarrow>
   ('s \<Rightarrow> operation_node list) \<Rightarrow> 's \<Rightarrow> nat \<Rightarrow> world \<Rightarrow> nat \<times> world" where
  "returning cloneWithReturning parseSelectArg selection this w =
     (case QueryNode_cloneWith cloneWithReturning (queryNode (this_props w this))
             (parseSelectArg selection) w of
        (node, w1) \<Rightarrow> new_InsertQueryBuilder ((this_props w this)\<lparr>queryNode := node\<rparr>) w1)"

definition returningAll ::
  "(insert_query_node \<Rightarrow> operation_node list \<Rightarrow> insert_query_node) \<Rightarrow>
   operation_node list \<Rightarrow> nat \<Rightarrow> world \<Rightarrow> nat \<times> world" where
  "returningAll cloneWithReturning parseSelectAll this w =
     (case QueryNode_cloneWith cloneWithReturning (queryNode (this_props w this))
             parseSelectAll w of
        (node, w1) \<Rightarrow> new_InsertQueryBuilder ((this_props w this)\<lparr>queryNode := node\<rparr>) w1)"

text \<open>
  \<^verbatim>\<open>$call\<close>, \<^verbatim>\<open>$if\<close> and \<^verbatim>\<open>$castTo\<close>. A callback receives the builder and
  may itself call methods, so it takes and returns the store.
\<close>

definition dollar_call :: "(nat \<Rightarrow> world \<Rightarrow> 'a \<times> world) \<Rightarrow> nat \<Rightarrow> world \<Rightarrow> 'a \<times> world" where
  "dollar_call func this w = func this w"

definition dollar_if ::
  "bool \<Rightarrow> (nat \<Rightarrow> world \<Rightarrow> nat \<times> world) \<Rightarrow> nat \<Rightarrow> world \<Rightarrow> nat \<times> world" where
  "dollar_if condition func this w =
     (if condition then func this w
      else new_InsertQueryBuilder (this_props w this) w)"



text \<open>
  The deprecated \<^verbatim>\<open>call\<close>, \<^verbatim>\<open>if\<close> and \<^verbatim>\<open>castTo\<close> call their \<^verbatim>\<open>$\<close>
  namesakes, and \<^verbatim>\<open>assertType\<close> has the body of \<^verbatim>\<open>$assertType\<close>.
\<close>

definition withPlugin :: "plugin \<Rightarrow> nat \<Rightarrow> world \<Rightarrow> nat \<times> world" where
  "withPlugin plugin this w =
     new_InsertQueryBuilder
       ((this_props w this)\<lparr>executor := exec_withPlugin (executor (this_props w this)) plugin\<rparr>) w"

subsection \<open>The terminal methods\<close>

definition toOperationNode :: "nat \<Rightarrow> world \<Rightarrow> insert_query_node \<times> world" where
  "toOperationNode this w =
     (let props = this_props w this; node = nodes w ! queryNode props
      in (exec_transformQuery (executor props) node (queryId props),
          record_call (TransformQuery node (queryId props)) w))"

definition compile :: "nat \<Rightarrow> world \<Rightarrow> compiled_query \<times> world" where
  "compile this w =
     (case toOperationNode this w of
        (node, w1) \<Rightarrow>
          (exec_compileQuery (executor (this_props w this)) node (queryId (this_props w1 this)),
           record_call (CompileQuery node (queryId (this_props w1 this))) w1))"

text \<open>\<^verbatim>\<open>result.numAffectedRows ?? result.numUpdatedOrDeletedRows\<close>.\<close>

definition nullish_coalesce :: "'a option \<Rightarrow> 'a option \<Rightarrow> 'a option" where
  "nullish_coalesce a b = (case a of Some v \<Rightarrow> Some v | None \<Rightarrow> b)"

definition execute :: "nat \<Rightarrow> world \<Rightarrow> (error + output_row list) \<times> world" where
  "execute this w =
     (case compile this w of
        (compiledQuery, w1) \<Rightarrow>
          (let props = this_props w1 this;
               w2 = record_call (ExecuteQuery compiledQuery (queryId props)) w1
           in case exec_executeQuery (executor props) compiledQuery (queryId props) of
                Inl e \<Rightarrow> (Inl e, w2)
              | Inr result \<Rightarrow>
                  if exec_supportsReturning (executor props)
                     \<and> node_returning (query compiledQuery) \<noteq> None
                  then (Inr (map Row (rows result)), w2)
                  else (Inr [Inserted (InsertResult (insertId result)
                               (nullish_coalesce (numAffectedRows result)
                                  (numUpdatedOrDeletedRows result)))], w2)))"

text \<open>
  \<^verbatim>\<open>const [result] = await this.execute()\<close>: the first element, or
  \<^verbatim>\<open>undefined\<close> (here \<open>None\<close>) when the array is empty.
\<close>

definition first_element :: "'a list \<Rightarrow> 'a option" where
  "first_element xs = (case xs of [] \<Rightarrow> None | x # _ \<Rightarrow> Some x)"

definition executeTakeFirst :: "nat \<Rightarrow> world \<Rightarrow> (error + output_row option) \<times> world" where
  "executeTakeFirst this w =
     (case execute this w of
        (Inl e, w1) \<Rightarrow> (Inl e, w1)
      | (Inr results, w1) \<Rightarrow> (Inr (first_element results), w1))"

text \<open>
  The parameter \<^verbatim>\<open>errorConstructor\<close> has the default \<^verbatim>\<open>NoResultError\<close>:
  \<open>None\<close> is the call without an argument.
\<close>

definition executeTakeFirstOrThrow ::
  "error_argument option \<Rightarrow> nat \<Rightarrow> world \<Rightarrow> (error + output_row) \<times> world" where
  "executeTakeFirstOrThrow arg this w =
     (let errorConstructor = (case arg of None \<Rightarrow> ErrorConstructor NoResultError | Some a \<Rightarrow> a)
      in case executeTakeFirst this w of
           (Inl e, w1) \<Rightarrow> (Inl e, w1)
         | (Inr None, w1) \<Rightarrow>
             (case toOperationNode this w1 of
                (node, w2) \<Rightarrow>
                  (case errorConstructor of
                     ErrorConstructor construct \<Rightarrow> (Inl (construct node), w2)
                   | ErrorCallback callback \<Rightarrow> (Inl (callback node), w2)))
         | (Inr (Some result), w1) \<Rightarrow> (Inr result, w1))"

text \<open>\<^verbatim>\<open>yield* item.rows\<close>, followed by the rest of the iteration.\<close>

fun yield_star :: "'a list \<Rightarrow> 'a async_iterator \<Rightarrow> 'a async_iterator" where
  "yield_star [] rest = rest"
| "yield_star (x # xs) rest = Yield x (yield_star xs rest)"

text \<open>\<^verbatim>\<open>for await (const item of stream) { yield* item.rows }\<close>.\<close>

fun for_await_yield_rows :: "query_result async_iterator \<Rightarrow> row async_iterator" where
  "for_await_yield_rows Done = Done"
| "for_await_yield_rows (Throw e) = Throw e"
| "for_await_yield_rows (Yield item rest) = yield_star (rows item) (for_await_yield_rows rest)"

text \<open>
  The parameter \<^verbatim>\<open>chunkSize\<close> has the default 100: \<open>None\<close> is the call without
  an argument. The generator is run to its end.
\<close>

definition stream :: "int option \<Rightarrow> nat \<Rightarrow> world \<Rightarrow> row async_iterator \<times> world" where
  "stream arg this w =
     (let chunkSize = (case arg of None \<Rightarrow> 100 | Some n \<Rightarrow> n)
      in case compile this w of
           (compiledQuery, w1) \<Rightarrow>
             (let props = this_props w1 this
              in (for_await_yield_rows
                    (exec_stream (executor props) compiledQuery chunkSize (queryId props)),
                  record_call (Stream compiledQuery chunkSize (queryId props)) w1)))"


text \<open>What an asynchronous iterator yields, in order, and how it ends.\<close>

fun yielded :: "'a async_iterator \<Rightarrow> 'a list" where
  "yielded Done = []"
| "yielded (Throw e) = []"
| "yielded (Yield x rest) = x # yielded rest"

fun thrown :: "'a async_iterator \<Rightarrow> error option" where
  "thrown Done = None"
| "thrown (Throw e) = Some e"
| "thrown (Yield x rest) = thrown rest"

text \<open>The token an executor call carries.\<close>

fun call_queryId :: "executor_call \<Rightarrow> query_id" where
  "call_queryId (TransformQuery n q) = q"
| "call_queryId (CompileQuery n q) = q"
| "call_queryId (ExecuteQuery c q) = q"
| "call_queryId (Stream c n q) = q"

text \<open>Whether a call is a driver round trip.\<close>

fun is_dispatch :: "executor_call \<Rightarrow> bool" where
  "is_dispatch (ExecuteQuery c q) = True"
| "is_dispatch (Stream c n q) = True"
| "is_dispatch (TransformQuery n q) = False"
| "is_dispatch (CompileQuery n q) = False"

subsection \<open>Callbacks built from the builder's methods\<close>




subsection \<open>The shape of a node-editing method\<close>

text \<open>
  Eight of the chainable methods have one shape: a new node made from the fields of
  the old one, and a new builder that refers to it. \<open>edited\<close> names that shape for
  the proofs; it is not a function of the program.
\<close>

definition edited ::
  "(insert_query_node \<Rightarrow> insert_query_node) \<Rightarrow> nat \<Rightarrow> world \<Rightarrow> nat \<times> world" where
  "edited change this w =
     (length (builders w),
      w\<lparr>nodes := nodes w @ [change (nodes w ! queryNode (this_props w this))],
        builders := builders w @ [(this_props w this)\<lparr>queryNode := length (nodes w)\<rparr>]\<rparr>)"

subsection \<open>Example objects\<close>

text \<open>
  Modelled from the spec: an executor as the spec describes it (4.4, 4.6):
  \<^verbatim>\<open>transformQuery\<close> applies the query hook of every plugin in registration order,
  \<^verbatim>\<open>executeQuery\<close> and \<^verbatim>\<open>stream\<close> apply their result hooks to what the
  driver returns (to each chunk of a stream), and
  \<^verbatim>\<open>withPlugin\<close> returns an executor with the plugin appended. The adapter flag,
  the compiler, the driver and its cursor are given. It is used in the examples only.
\<close>

primcorec spec_executor ::
  "bool \<Rightarrow> (insert_query_node \<Rightarrow> compiled_query) \<Rightarrow> (compiled_query \<Rightarrow> error + query_result)
   \<Rightarrow> (compiled_query \<Rightarrow> int \<Rightarrow> query_result async_iterator) \<Rightarrow> plugin list \<Rightarrow> executor" where
  "spec_executor supportsReturning compiler driver cursor plugins =
     Executor supportsReturning
       (\<lambda>node q. fold (\<lambda>p n. plugin_transformQuery p n q) plugins node)
       (\<lambda>node q. compiler node)
       (\<lambda>c q. map_sum id (\<lambda>r. fold (\<lambda>p r. plugin_transformResult p r q) plugins r) (driver c))
       (\<lambda>c n q. map_async_iterator (\<lambda>r. fold (\<lambda>p r. plugin_transformResult p r q) plugins r)
                   (cursor c n))
       (\<lambda>p. spec_executor supportsReturning compiler driver cursor (plugins @ [p]))"

definition person_insert :: insert_query_node where
  "person_insert =
     \<lparr>node_into = OperationNode ''TableNode'' ''person'' [], node_columns = None,
      node_values = None, node_returning = None, node_onConflict = None,
      node_onDuplicateKey = None, node_ignore = None, node_explain = None\<rparr>"

definition person_insert_returning :: insert_query_node where
  "person_insert_returning =
     person_insert\<lparr>node_returning := Some (OperationNode ''ReturningNode'' ''id'' [])\<rparr>"

definition person_compiler :: "insert_query_node \<Rightarrow> compiled_query" where
  "person_compiler node = \<lparr>query = node, sql = ''insert into person'', parameters = []\<rparr>"

definition anna :: row where
  "anna = [(''id'', JNum 1), (''first_name'', JStr ''Anna'')]"

definition ben :: row where
  "ben = [(''id'', JNum 2), (''first_name'', JStr ''Ben'')]"

text \<open>A driver that reports insert id 7, one affected row, and the rows it is given.\<close>

definition person_driver :: "row list \<Rightarrow> compiled_query \<Rightarrow> error + query_result" where
  "person_driver rs c =
     Inr \<lparr>insertId = Some 7, numAffectedRows = Some 1, numUpdatedOrDeletedRows = None, rows = rs\<rparr>"

definition chunk :: "row list \<Rightarrow> query_result" where
  "chunk rs = \<lparr>insertId = None, numAffectedRows = None, numUpdatedOrDeletedRows = None, rows = rs\<rparr>"

text \<open>A cursor over five rows in chunks of sizes 2, 2 and 1.\<close>

definition person_cursor :: "compiled_query \<Rightarrow> int \<Rightarrow> query_result async_iterator" where
  "person_cursor c n =
     Yield (chunk [anna, ben]) (Yield (chunk [ben, anna]) (Yield (chunk [anna]) Done))"

definition person_executor :: "bool \<Rightarrow> row list \<Rightarrow> executor" where
  "person_executor supportsReturning rs =
     spec_executor supportsReturning person_compiler (person_driver rs) person_cursor []"

text \<open>A store with one node and one builder of it, at address 0.\<close>

definition store :: "insert_query_node \<Rightarrow> executor \<Rightarrow> world" where
  "store node e =
     \<lparr>nodes = [node], builders = [\<lparr>queryId = QueryId ''q1'', queryNode = 0, executor = e\<rparr>],
      calls = []\<rparr>"


text \<open>A plugin that changes nothing.\<close>

definition identity_plugin :: plugin where
  "identity_plugin = \<lparr>plugin_transformQuery = (\<lambda>n q. n), plugin_transformResult = (\<lambda>r q. r)\<rparr>"

text \<open>A plugin whose query hook adds a returning clause to the query.\<close>

definition returning_plugin :: plugin where
  "returning_plugin =
     \<lparr>plugin_transformQuery =
        (\<lambda>n q. n\<lparr>node_returning := Some (OperationNode ''ReturningNode'' ''id'' [])\<rparr>),
      plugin_transformResult = (\<lambda>r q. r)\<rparr>"

section \<open>Properties\<close>

subsection \<open>The terminal methods, unfolded\<close>

text \<open>
  Each terminal method as one equation: what it returns, and the calls it adds to the
  log. None of them allocates or changes an object.
\<close>

lemma toOperationNode_unfolded:
  "toOperationNode b w =
     (exec_transformQuery (executor (this_props w b)) (nodes w ! queryNode (this_props w b))
        (queryId (this_props w b)),
      w\<lparr>calls := calls w @
         [TransformQuery (nodes w ! queryNode (this_props w b)) (queryId (this_props w b))]\<rparr>)"
  by (simp add: toOperationNode_def record_call_def Let_def)

lemma this_props_calls [simp]: "this_props (w\<lparr>calls := cs\<rparr>) b = this_props w b"
  by (simp add: this_props_def)

lemma withPlugin_unfolded:
  "withPlugin plugin b w =
     (length (builders w),
      w\<lparr>builders := builders w @
         [(this_props w b)\<lparr>executor := exec_withPlugin (executor (this_props w b)) plugin\<rparr>]\<rparr>)"
  by (simp add: withPlugin_def new_InsertQueryBuilder_def)

lemma compile_unfolded:
  "compile b w =
     (exec_compileQuery (executor (this_props w b)) (fst (toOperationNode b w))
        (queryId (this_props w b)),
      w\<lparr>calls := calls w @
         [TransformQuery (nodes w ! queryNode (this_props w b)) (queryId (this_props w b)),
          CompileQuery (fst (toOperationNode b w)) (queryId (this_props w b))]\<rparr>)"
  by (simp add: compile_def toOperationNode_unfolded record_call_def)

lemma execute_unfolded:
  "execute b w =
     (case exec_executeQuery (executor (this_props w b)) (fst (compile b w)) (queryId (this_props w b)) of
        Inl e \<Rightarrow> Inl e
      | Inr result \<Rightarrow>
          if exec_supportsReturning (executor (this_props w b))
             \<and> node_returning (query (fst (compile b w))) \<noteq> None
          then Inr (map Row (rows result))
          else Inr [Inserted (InsertResult (insertId result)
                 (nullish_coalesce (numAffectedRows result) (numUpdatedOrDeletedRows result)))],
      w\<lparr>calls := calls w @
         [TransformQuery (nodes w ! queryNode (this_props w b)) (queryId (this_props w b)),
          CompileQuery (fst (toOperationNode b w)) (queryId (this_props w b)),
          ExecuteQuery (fst (compile b w)) (queryId (this_props w b))]\<rparr>)"
  by (cases "exec_executeQuery (executor (this_props w b)) (fst (compile b w)) (queryId (this_props w b))")
     (auto simp add: execute_def compile_unfolded toOperationNode_unfolded record_call_def Let_def)

lemma executeTakeFirst_unfolded:
  "executeTakeFirst b w =
     (case fst (execute b w) of Inl e \<Rightarrow> Inl e | Inr results \<Rightarrow> Inr (first_element results),
      snd (execute b w))"
  by (cases "execute b w"; cases "fst (execute b w)") (auto simp add: executeTakeFirst_def)

lemma toOperationNode_after_execute:
  "toOperationNode b (snd (execute b w)) =
     (fst (toOperationNode b w),
      (snd (execute b w))\<lparr>calls := calls (snd (execute b w)) @
         [TransformQuery (nodes w ! queryNode (this_props w b)) (queryId (this_props w b))]\<rparr>)"
  by (simp add: toOperationNode_unfolded execute_unfolded this_props_def)

lemma executeTakeFirstOrThrow_unfolded:
  "fst (executeTakeFirstOrThrow arg b w) =
     (case fst (execute b w) of
        Inl e \<Rightarrow> Inl e
      | Inr [] \<Rightarrow>
          (case arg of
             None \<Rightarrow> Inl (NoResultError (fst (toOperationNode b w)))
           | Some (ErrorConstructor construct) \<Rightarrow> Inl (construct (fst (toOperationNode b w)))
           | Some (ErrorCallback callback) \<Rightarrow> Inl (callback (fst (toOperationNode b w))))
      | Inr (x # xs) \<Rightarrow> Inr x)"
  by (simp add: executeTakeFirstOrThrow_def executeTakeFirst_unfolded toOperationNode_after_execute
      first_element_def Let_def split: sum.splits list.splits option.splits error_argument.splits)

lemma stream_unfolded:
  "stream arg b w =
     (for_await_yield_rows
        (exec_stream (executor (this_props w b)) (fst (compile b w))
           (case arg of None \<Rightarrow> 100 | Some n \<Rightarrow> n) (queryId (this_props w b))),
      w\<lparr>calls := calls w @
         [TransformQuery (nodes w ! queryNode (this_props w b)) (queryId (this_props w b)),
          CompileQuery (fst (toOperationNode b w)) (queryId (this_props w b)),
          Stream (fst (compile b w)) (case arg of None \<Rightarrow> 100 | Some n \<Rightarrow> n)
            (queryId (this_props w b))]\<rparr>)"
  by (simp add: stream_def compile_unfolded toOperationNode_unfolded record_call_def Let_def)

subsection \<open>compile\<close>

text \<open>
  C3. \<^verbatim>\<open>compile()\<close> returns what the executor's \<^verbatim>\<open>compileQuery\<close> makes of the
  node that the executor's \<^verbatim>\<open>transformQuery\<close> returns for the builder's current
  root, both called with the builder's query id. It calls the executor for these two
  steps only: the log grows by exactly these two calls, neither of them a driver round
  trip, and no object of the store changes.
\<close>

theorem compile_is_compileQuery_of_transformQuery:
  "fst (compile b w) =
     exec_compileQuery (executor (this_props w b))
       (exec_transformQuery (executor (this_props w b)) (nodes w ! queryNode (this_props w b))
          (queryId (this_props w b)))
       (queryId (this_props w b))
   \<and> fst (toOperationNode b w) =
       exec_transformQuery (executor (this_props w b)) (nodes w ! queryNode (this_props w b))
         (queryId (this_props w b))
   \<and> calls (snd (compile b w)) =
       calls w @
         [TransformQuery (nodes w ! queryNode (this_props w b)) (queryId (this_props w b)),
          CompileQuery (fst (toOperationNode b w)) (queryId (this_props w b))]
   \<and> filter is_dispatch (calls (snd (compile b w))) = filter is_dispatch (calls w)
   \<and> nodes (snd (compile b w)) = nodes w
   \<and> builders (snd (compile b w)) = builders w"
  by (simp add: compile_unfolded toOperationNode_unfolded)

subsection \<open>execute\<close>

text \<open>
  C2, as amended. Let the driver answer the compiled query with \<open>result\<close>. If the
  compiled query (\<^verbatim>\<open>compiledQuery.query\<close>: the builder's query after the executor's
  \<^verbatim>\<open>transformQuery\<close> and \<^verbatim>\<open>compileQuery\<close>) has no returning clause, or the
  adapter does not support returning, \<^verbatim>\<open>execute\<close> returns exactly the one-element
  array holding the \<^verbatim>\<open>InsertResult\<close> built from the reported insert id and the
  reported number of affected rows (\<^verbatim>\<open>numAffectedRows ?? numUpdatedOrDeletedRows\<close>),
  which is never the array of the driver's rows. Only when the adapter supports
  returning and the compiled query has the clause does it return the driver's rows.
\<close>

theorem execute_returning_fallback:
  assumes "exec_executeQuery (executor (this_props w b)) (fst (compile b w))
             (queryId (this_props w b)) = Inr result"
  shows "(node_returning (query (fst (compile b w))) = None
            \<or> \<not> exec_supportsReturning (executor (this_props w b))
          \<longrightarrow> fst (execute b w) =
                Inr [Inserted (InsertResult (insertId result)
                       (nullish_coalesce (numAffectedRows result) (numUpdatedOrDeletedRows result)))]
              \<and> fst (execute b w) \<noteq> Inr (map Row (rows result)))
       \<and> (exec_supportsReturning (executor (this_props w b))
            \<and> node_returning (query (fst (compile b w))) \<noteq> None
          \<longrightarrow> fst (execute b w) = Inr (map Row (rows result)))"
proof -
  have "[Inserted r] \<noteq> map Row rs" for r rs
    by (cases rs) auto
  with assms show ?thesis
    by (auto simp add: execute_unfolded)
qed

theorem execute_returning_fallback_witness:
  "exec_executeQuery (executor (this_props (store person_insert (person_executor False [anna])) 0))
      (fst (compile 0 (store person_insert (person_executor False [anna]))))
      (queryId (this_props (store person_insert (person_executor False [anna])) 0))
     = Inr \<lparr>insertId = Some 7, numAffectedRows = Some 1, numUpdatedOrDeletedRows = None,
            rows = [anna]\<rparr>
   \<and> fst (execute 0 (store person_insert (person_executor False [anna])))
     = Inr [Inserted (InsertResult (Some 7) (Some 1))]
   \<and> fst (execute 0 (store person_insert (person_executor True [anna])))
     = Inr [Inserted (InsertResult (Some 7) (Some 1))]
   \<and> fst (execute 0 (store person_insert_returning (person_executor False [anna])))
     = Inr [Inserted (InsertResult (Some 7) (Some 1))]
   \<and> fst (execute 0 (store person_insert_returning (person_executor True [anna])))
     = Inr [Row anna]"
proof -
  have answer: "exec_executeQuery (executor (this_props (store node (person_executor flag [anna])) 0))
      (fst (compile 0 (store node (person_executor flag [anna]))))
      (queryId (this_props (store node (person_executor flag [anna])) 0))
     = Inr \<lparr>insertId = Some 7, numAffectedRows = Some 1, numUpdatedOrDeletedRows = None,
            rows = [anna]\<rparr>" for node flag
    by (simp add: store_def person_executor_def person_driver_def this_props_def)
  have flag: "exec_supportsReturning (executor (this_props (store node (person_executor flag [anna])) 0))
      = flag" for node flag
    by (simp add: store_def person_executor_def this_props_def)
  have clause: "node_returning (query (fst (compile 0 (store node (person_executor flag [anna])))))
      = node_returning node" for node flag
    by (simp add: compile_unfolded toOperationNode_unfolded store_def person_executor_def
        person_compiler_def this_props_def)
  have absent: "node_returning person_insert = None"
    by (simp add: person_insert_def)
  have present: "node_returning person_insert_returning \<noteq> None"
    by (simp add: person_insert_returning_def)
  from execute_returning_fallback [OF answer [of person_insert False]]
    execute_returning_fallback [OF answer [of person_insert True]]
    execute_returning_fallback [OF answer [of person_insert_returning False]]
    execute_returning_fallback [OF answer [of person_insert_returning True]]
    answer [of person_insert False] absent present
  show ?thesis
    by (simp add: flag clause nullish_coalesce_def)
qed

text \<open>
  As stated, C2 speaks of the returning clause of the insert query, which is the query
  the builder holds. The code reads the clause from the compiled query. A builder whose
  query has no returning clause, with a plugin that adds one and an adapter that
  supports returning, returns the driver's rows and no \<^verbatim>\<open>InsertResult\<close>.
\<close>

theorem execute_returns_rows_when_plugin_adds_returning:
  "fst (withPlugin returning_plugin 0 (store person_insert (person_executor True [anna]))) = 1
   \<and> node_returning
        (nodes (snd (withPlugin returning_plugin 0 (store person_insert (person_executor True [anna]))))
         ! queryNode (this_props
             (snd (withPlugin returning_plugin 0 (store person_insert (person_executor True [anna]))))
             1))
       = None
   \<and> fst (execute 1
          (snd (withPlugin returning_plugin 0 (store person_insert (person_executor True [anna])))))
       = Inr [Row anna]"
  by (simp add: execute_unfolded compile_unfolded toOperationNode_unfolded withPlugin_unfolded
      store_def this_props_def person_executor_def person_driver_def person_compiler_def
      person_insert_def returning_plugin_def)

text \<open>
  The two readings agree when the executor hands the builder's query on as it is: when
  \<^verbatim>\<open>transformQuery\<close> returns the root and the compiled query refers to it.
\<close>

lemma compiled_query_of_root:
  assumes "exec_transformQuery (executor (this_props w b)) (nodes w ! queryNode (this_props w b))
             (queryId (this_props w b)) = nodes w ! queryNode (this_props w b)"
    and "query (exec_compileQuery (executor (this_props w b)) (nodes w ! queryNode (this_props w b))
             (queryId (this_props w b))) = nodes w ! queryNode (this_props w b)"
  shows "query (fst (compile b w)) = nodes w ! queryNode (this_props w b)"
  using assms by (simp add: compile_unfolded toOperationNode_unfolded)

text \<open>A driver error is not caught: \<^verbatim>\<open>execute\<close> fails with it.\<close>

lemma execute_propagates_driver_error:
  assumes "exec_executeQuery (executor (this_props w b)) (fst (compile b w))
             (queryId (this_props w b)) = Inl e"
  shows "fst (execute b w) = Inl e"
  using assms by (simp add: execute_unfolded)

subsection \<open>executeTakeFirst and executeTakeFirstOrThrow\<close>

text \<open>
  C9. When \<^verbatim>\<open>execute\<close> returns the array \<open>results\<close>, \<^verbatim>\<open>executeTakeFirst\<close> returns
  its first element, and returns \<^verbatim>\<open>undefined\<close> (\<open>None\<close>) exactly when the array is
  empty. It leaves the store and the log as \<^verbatim>\<open>execute\<close> leaves them: the only
  driver round trip it adds is the one \<^verbatim>\<open>executeQuery\<close> call of \<^verbatim>\<open>execute\<close>.
\<close>

theorem executeTakeFirst_is_first_of_execute:
  assumes "fst (execute b w) = Inr results"
  shows "fst (executeTakeFirst b w) = Inr (if results = [] then None else Some (hd results))
       \<and> (fst (executeTakeFirst b w) = Inr None \<longleftrightarrow> results = [])
       \<and> snd (executeTakeFirst b w) = snd (execute b w)
       \<and> filter is_dispatch (calls (snd (executeTakeFirst b w))) =
           filter is_dispatch (calls w)
             @ [ExecuteQuery (fst (compile b w)) (queryId (this_props w b))]"
  using assms
  by (cases results) (simp_all add: executeTakeFirst_unfolded first_element_def execute_unfolded)

theorem executeTakeFirst_is_first_of_execute_witness:
  "fst (execute 0 (store person_insert_returning (person_executor True [anna, ben])))
     = Inr [Row anna, Row ben]
   \<and> fst (executeTakeFirst 0 (store person_insert_returning (person_executor True [anna, ben])))
     = Inr (Some (Row anna))
   \<and> fst (execute 0 (store person_insert_returning (person_executor True []))) = Inr []
   \<and> fst (executeTakeFirst 0 (store person_insert_returning (person_executor True [])))
     = Inr None"
proof -
  let ?w = "store person_insert_returning (person_executor True [anna, ben])"
  let ?v = "store person_insert_returning (person_executor True [])"
  have two: "fst (execute 0 ?w) = Inr [Row anna, Row ben]"
    by (simp add: execute_unfolded compile_unfolded toOperationNode_unfolded store_def
        this_props_def person_executor_def person_driver_def person_compiler_def
        person_insert_returning_def)
  have none: "fst (execute 0 ?v) = Inr []"
    by (simp add: execute_unfolded compile_unfolded toOperationNode_unfolded store_def
        this_props_def person_executor_def person_driver_def person_compiler_def
        person_insert_returning_def)
  from executeTakeFirst_is_first_of_execute [OF two] executeTakeFirst_is_first_of_execute [OF none]
    two none
  show ?thesis
    by simp
qed

text \<open>
  C4. When \<^verbatim>\<open>execute\<close> returns an empty array, \<^verbatim>\<open>executeTakeFirstOrThrow\<close> fails:
  without an argument with the \<^verbatim>\<open>NoResultError\<close> built from the query's operation
  node (\<^verbatim>\<open>this.toOperationNode()\<close>); with a constructor, with the instance the
  constructor builds from that node; with a callback, with the value the callback
  returns for that node. When the array is not empty it returns its first element and
  throws nothing.
\<close>

theorem executeTakeFirstOrThrow_no_result:
  assumes "fst (execute b w) = Inr results"
  shows "(results = [] \<longrightarrow>
            fst (executeTakeFirstOrThrow None b w) = Inl (NoResultError (fst (toOperationNode b w)))
          \<and> fst (executeTakeFirstOrThrow (Some (ErrorConstructor construct)) b w)
              = Inl (construct (fst (toOperationNode b w)))
          \<and> fst (executeTakeFirstOrThrow (Some (ErrorCallback callback)) b w)
              = Inl (callback (fst (toOperationNode b w))))
       \<and> (results \<noteq> [] \<longrightarrow> fst (executeTakeFirstOrThrow arg b w) = Inr (hd results))"
  using assms
  by (cases results) (simp_all add: executeTakeFirstOrThrow_unfolded)

theorem executeTakeFirstOrThrow_no_result_witness:
  "fst (execute 0 (store person_insert_returning (person_executor True []))) = Inr []
   \<and> fst (executeTakeFirstOrThrow None 0 (store person_insert_returning (person_executor True [])))
     = Inl (NoResultError person_insert_returning)
   \<and> fst (executeTakeFirstOrThrow (Some (ErrorCallback (\<lambda>node. Error ''nothing inserted''))) 0
          (store person_insert_returning (person_executor True [])))
     = Inl (Error ''nothing inserted'')
   \<and> fst (execute 0 (store person_insert_returning (person_executor True [anna]))) = Inr [Row anna]
   \<and> fst (executeTakeFirstOrThrow None 0
          (store person_insert_returning (person_executor True [anna])))
     = Inr (Row anna)"
proof -
  let ?v = "store person_insert_returning (person_executor True [])"
  let ?w = "store person_insert_returning (person_executor True [anna])"
  have none: "fst (execute 0 ?v) = Inr []"
    by (simp add: execute_unfolded compile_unfolded toOperationNode_unfolded store_def
        this_props_def person_executor_def person_driver_def person_compiler_def
        person_insert_returning_def)
  have one: "fst (execute 0 ?w) = Inr [Row anna]"
    by (simp add: execute_unfolded compile_unfolded toOperationNode_unfolded store_def
        this_props_def person_executor_def person_driver_def person_compiler_def
        person_insert_returning_def)
  have node: "fst (toOperationNode 0 ?v) = person_insert_returning"
    by (simp add: toOperationNode_unfolded store_def this_props_def person_executor_def)
  from executeTakeFirstOrThrow_no_result [OF none, of "\<lambda>node. Error ''nothing inserted''"
      "\<lambda>node. Error ''nothing inserted''" None]
    executeTakeFirstOrThrow_no_result [OF one, of NoResultError NoResultError None]
    none one node
  show ?thesis
    by simp
qed

text \<open>
  C10, as amended. If the compiled query (\<^verbatim>\<open>compiledQuery.query\<close>: the builder's
  query after the executor's \<^verbatim>\<open>transformQuery\<close> and \<^verbatim>\<open>compileQuery\<close>) has no
  returning clause, or the adapter does not support returning, then whenever the driver
  answers, whatever rows it reports, \<^verbatim>\<open>execute\<close> returns a one-element array; so
  \<^verbatim>\<open>executeTakeFirst\<close> returns that element and not \<^verbatim>\<open>undefined\<close>, and
  \<^verbatim>\<open>executeTakeFirstOrThrow\<close> returns it and does not throw, whatever error argument
  it is given. When the driver fails, all three fail with the driver's error and no
  error is built from the argument.
\<close>

theorem insert_without_returning_never_empty:
  assumes "node_returning (query (fst (compile b w))) = None
           \<or> \<not> exec_supportsReturning (executor (this_props w b))"
  shows "case exec_executeQuery (executor (this_props w b)) (fst (compile b w))
                (queryId (this_props w b)) of
           Inr result \<Rightarrow>
             fst (execute b w) =
               Inr [Inserted (InsertResult (insertId result)
                      (nullish_coalesce (numAffectedRows result) (numUpdatedOrDeletedRows result)))]
             \<and> fst (executeTakeFirst b w) =
               Inr (Some (Inserted (InsertResult (insertId result)
                      (nullish_coalesce (numAffectedRows result) (numUpdatedOrDeletedRows result)))))
             \<and> fst (executeTakeFirstOrThrow arg b w) =
               Inr (Inserted (InsertResult (insertId result)
                      (nullish_coalesce (numAffectedRows result) (numUpdatedOrDeletedRows result))))
         | Inl e \<Rightarrow>
             fst (execute b w) = Inl e \<and> fst (executeTakeFirst b w) = Inl e
             \<and> fst (executeTakeFirstOrThrow arg b w) = Inl e"
proof (cases "exec_executeQuery (executor (this_props w b)) (fst (compile b w)) (queryId (this_props w b))")
  case (Inl e)
  then have "fst (execute b w) = Inl e"
    by (simp add: execute_unfolded)
  with Inl show ?thesis
    by (simp add: executeTakeFirst_unfolded executeTakeFirstOrThrow_unfolded)
next
  case (Inr result)
  with assms have "fst (execute b w) =
      Inr [Inserted (InsertResult (insertId result)
             (nullish_coalesce (numAffectedRows result) (numUpdatedOrDeletedRows result)))]"
    by (auto simp add: execute_unfolded)
  with Inr show ?thesis
    by (simp add: executeTakeFirst_unfolded executeTakeFirstOrThrow_unfolded first_element_def)
qed

theorem insert_without_returning_never_empty_witness:
  "\<not> exec_supportsReturning
        (executor (this_props (store person_insert_returning (person_executor False [])) 0))
   \<and> fst (execute 0 (store person_insert_returning (person_executor False [])))
       = Inr [Inserted (InsertResult (Some 7) (Some 1))]
   \<and> fst (executeTakeFirst 0 (store person_insert_returning (person_executor False [])))
       = Inr (Some (Inserted (InsertResult (Some 7) (Some 1))))
   \<and> fst (executeTakeFirstOrThrow None 0
            (store person_insert_returning (person_executor False [])))
       = Inr (Inserted (InsertResult (Some 7) (Some 1)))"
proof -
  let ?w = "store person_insert_returning (person_executor False [])"
  have unsupported: "\<not> exec_supportsReturning (executor (this_props ?w 0))"
    by (simp add: store_def person_executor_def this_props_def)
  then have "node_returning (query (fst (compile 0 ?w))) = None
             \<or> \<not> exec_supportsReturning (executor (this_props ?w 0))" ..
  from insert_without_returning_never_empty [OF this, of None] unsupported
  show ?thesis
    by (simp add: store_def person_executor_def person_driver_def this_props_def
        nullish_coalesce_def)
qed

text \<open>
  As stated, C10 speaks of an insert query that has no returning clause. For a builder
  whose query has none, with a plugin that adds one, an adapter that supports returning
  and a driver that reports no rows, \<^verbatim>\<open>execute\<close> returns the empty array,
  \<^verbatim>\<open>executeTakeFirst\<close> returns \<^verbatim>\<open>undefined\<close> and \<^verbatim>\<open>executeTakeFirstOrThrow\<close>
  throws the \<^verbatim>\<open>NoResultError\<close>.
\<close>

theorem executeTakeFirst_undefined_when_plugin_adds_returning:
  "node_returning
        (nodes (snd (withPlugin returning_plugin 0 (store person_insert (person_executor True []))))
         ! queryNode (this_props
             (snd (withPlugin returning_plugin 0 (store person_insert (person_executor True []))))
             1))
       = None
   \<and> fst (execute 1
          (snd (withPlugin returning_plugin 0 (store person_insert (person_executor True [])))))
       = Inr []
   \<and> fst (executeTakeFirst 1
          (snd (withPlugin returning_plugin 0 (store person_insert (person_executor True [])))))
       = Inr None
   \<and> fst (executeTakeFirstOrThrow None 1
          (snd (withPlugin returning_plugin 0 (store person_insert (person_executor True [])))))
       = Inl (NoResultError person_insert_returning)"
  by (simp add: executeTakeFirstOrThrow_unfolded executeTakeFirst_unfolded first_element_def
      execute_unfolded compile_unfolded toOperationNode_unfolded withPlugin_unfolded
      store_def this_props_def person_executor_def person_driver_def person_compiler_def
      person_insert_def person_insert_returning_def returning_plugin_def)

subsection \<open>stream\<close>

lemma yielded_yield_star: "yielded (yield_star xs rest) = xs @ yielded rest"
  by (induction xs) simp_all

lemma thrown_yield_star: "thrown (yield_star xs rest) = thrown rest"
  by (induction xs) simp_all

lemma yielded_for_await: "yielded (for_await_yield_rows it) = concat (map rows (yielded it))"
  by (induction it) (simp_all add: yielded_yield_star)

lemma thrown_for_await: "thrown (for_await_yield_rows it) = thrown it"
  by (induction it) (simp_all add: thrown_yield_star)

text \<open>
  C6. \<^verbatim>\<open>stream\<close> yields exactly the rows of the chunks the executor's stream
  yields, chunk after chunk and in each chunk's order; so it yields as many rows as
  the chunks hold, and it ends as the executor's stream ends. Called without an
  argument it asks the executor for chunks of 100 rows.
\<close>

theorem stream_yields_rows_of_chunks:
  "yielded (fst (stream arg b w)) =
     concat (map rows (yielded
       (exec_stream (executor (this_props w b)) (fst (compile b w))
          (case arg of None \<Rightarrow> 100 | Some n \<Rightarrow> n) (queryId (this_props w b)))))
   \<and> length (yielded (fst (stream arg b w))) =
       sum_list (map (length \<circ> rows) (yielded
         (exec_stream (executor (this_props w b)) (fst (compile b w))
            (case arg of None \<Rightarrow> 100 | Some n \<Rightarrow> n) (queryId (this_props w b)))))
   \<and> thrown (fst (stream arg b w)) =
       thrown (exec_stream (executor (this_props w b)) (fst (compile b w))
          (case arg of None \<Rightarrow> 100 | Some n \<Rightarrow> n) (queryId (this_props w b)))
   \<and> filter is_dispatch (calls (snd (stream None b w))) =
       filter is_dispatch (calls w)
         @ [Stream (fst (compile b w)) 100 (queryId (this_props w b))]"
  by (simp add: stream_unfolded yielded_for_await thrown_for_await length_concat comp_def)

text \<open>Chunks of sizes 2, 2 and 1 give five rows, in their order.\<close>

theorem stream_yields_rows_of_chunks_witness:
  "yielded (fst (stream (Some 2) 0 (store person_insert (person_executor False [])))) =
     [anna, ben, ben, anna, anna]
   \<and> length (yielded (fst (stream (Some 2) 0 (store person_insert (person_executor False [])))))
       = 5"
  using stream_yields_rows_of_chunks [of "Some 2" 0 "store person_insert (person_executor False [])"]
  by (simp add: store_def person_executor_def person_cursor_def chunk_def this_props_def)

subsection \<open>The chainable methods\<close>

text \<open>Each node-editing method has the shape \<open>edited\<close>.\<close>

lemma values_method_edited:
  "values_method parse ins =
     edited (\<lambda>n. n\<lparr>node_columns := Some (fst (parse ins)), node_values := Some (snd (parse ins))\<rparr>)"
  by (intro ext) (simp add: values_method_def edited_def InsertQueryNode_cloneWith_def freeze_node_def
      new_InsertQueryBuilder_def this_props_def split: prod.splits)

lemma columns_edited:
  "columns cols = edited (\<lambda>n. n\<lparr>node_columns := Some (map ColumnNode_create cols)\<rparr>)"
  by (intro ext) (simp add: columns_def edited_def InsertQueryNode_cloneWith_def freeze_node_def
      new_InsertQueryBuilder_def this_props_def)

lemma expression_edited:
  "expression parse expr = edited (\<lambda>n. n\<lparr>node_values := Some (parse expr)\<rparr>)"
  by (intro ext) (simp add: expression_def edited_def InsertQueryNode_cloneWith_def freeze_node_def
      new_InsertQueryBuilder_def this_props_def)

lemma ignore_edited: "ignore = edited (\<lambda>n. n\<lparr>node_ignore := Some True\<rparr>)"
  by (intro ext) (simp add: ignore_def edited_def InsertQueryNode_cloneWith_def freeze_node_def
      new_InsertQueryBuilder_def this_props_def)

lemma onConflict_edited:
  "onConflict callback =
     edited (\<lambda>n. n\<lparr>node_onConflict :=
       Some (OnConflictBuilder_toOperationNode (callback (OnConflictBuilder OnConflictNode_create)))\<rparr>)"
  by (intro ext) (simp add: onConflict_def edited_def InsertQueryNode_cloneWith_def freeze_node_def
      new_InsertQueryBuilder_def this_props_def)

lemma onDuplicateKeyUpdate_edited:
  "onDuplicateKeyUpdate parse update =
     edited (\<lambda>n. n\<lparr>node_onDuplicateKey := Some (OnDuplicateKeyNode_create (parse update))\<rparr>)"
  by (intro ext) (simp add: onDuplicateKeyUpdate_def edited_def InsertQueryNode_cloneWith_def
      freeze_node_def new_InsertQueryBuilder_def this_props_def)

lemma returning_edited:
  "returning cloneWithReturning parse selection = edited (\<lambda>n. cloneWithReturning n (parse selection))"
  by (intro ext) (simp add: returning_def edited_def QueryNode_cloneWith_def freeze_node_def
      new_InsertQueryBuilder_def this_props_def)

lemma returningAll_edited:
  "returningAll cloneWithReturning selections = edited (\<lambda>n. cloneWithReturning n selections)"
  by (intro ext) (simp add: returningAll_def edited_def QueryNode_cloneWith_def freeze_node_def
      new_InsertQueryBuilder_def this_props_def)

lemma editing_methods_edited:
  assumes "m \<in> {values_method parseInsertExpression ins, columns cols,
                 expression parseExpression expr, ignore, onConflict callback,
                 onDuplicateKeyUpdate parseUpdateExpression update,
                 returning cloneWithReturning parseSelectArg selection,
                 returningAll cloneWithReturning parseSelectAll}"
  shows "\<exists>change. m = edited change"
  using assms
  by (auto simp add: values_method_edited columns_edited expression_edited ignore_edited
      onConflict_edited onDuplicateKeyUpdate_edited returning_edited returningAll_edited)

text \<open>One call of a node-editing method.\<close>

lemma edited_once:
  assumes "edited change b w = (b1, w1)"
  shows "b1 = length (builders w)"
    and "length (builders w1) = Suc (length (builders w))"
    and "length (nodes w1) = Suc (length (nodes w))"
    and "a < length (builders w) \<Longrightarrow> this_props w1 a = this_props w a"
    and "n < length (nodes w) \<Longrightarrow> nodes w1 ! n = nodes w ! n"
    and "this_props w1 b1 = (this_props w b)\<lparr>queryNode := length (nodes w)\<rparr>"
    and "nodes w1 ! length (nodes w) = change (nodes w ! queryNode (this_props w b))"
    and "calls w1 = calls w"
  using assms by (auto simp add: edited_def this_props_def nth_append)

lemma withPlugin_once:
  assumes "withPlugin plugin b w = (b1, w1)"
  shows "b1 = length (builders w)"
    and "length (builders w1) = Suc (length (builders w))"
    and "nodes w1 = nodes w"
    and "a < length (builders w) \<Longrightarrow> this_props w1 a = this_props w a"
    and "this_props w1 b1 =
           (this_props w b)\<lparr>executor := exec_withPlugin (executor (this_props w b)) plugin\<rparr>"
    and "calls w1 = calls w"
  using assms by (auto simp add: withPlugin_unfolded this_props_def nth_append)

lemma nine_cases:
  assumes m: "m \<in> {values_method parseInsertExpression ins, columns cols,
                    expression parseExpression expr, ignore, onConflict callback,
                    onDuplicateKeyUpdate parseUpdateExpression update,
                    returning cloneWithReturning parseSelectArg selection,
                    returningAll cloneWithReturning parseSelectAll,
                    withPlugin plugin}"
  shows "m = withPlugin plugin \<or> (\<exists>change. m = edited change)"
proof -
  from m have "m = withPlugin plugin \<or>
     m \<in> {values_method parseInsertExpression ins, columns cols,
                    expression parseExpression expr, ignore, onConflict callback,
                    onDuplicateKeyUpdate parseUpdateExpression update,
                    returning cloneWithReturning parseSelectArg selection,
                    returningAll cloneWithReturning parseSelectAll}"
    by (simp only: insert_iff empty_iff) blast
  then show ?thesis
  proof
    assume "m = withPlugin plugin"
    then show ?thesis ..
  next
    assume "m \<in> {values_method parseInsertExpression ins, columns cols,
                    expression parseExpression expr, ignore, onConflict callback,
                    onDuplicateKeyUpdate parseUpdateExpression update,
                    returning cloneWithReturning parseSelectArg selection,
                    returningAll cloneWithReturning parseSelectAll}"
    then have "\<exists>change. m = edited change"
      by (rule editing_methods_edited)
    then show ?thesis ..
  qed
qed

text \<open>Two calls of a node-editing method on the same builder.\<close>

lemma edited_twice:
  assumes valid: "valid_builder w b"
    and first: "edited change b w = (b1, w1)"
    and second: "edited change b w1 = (b2, w2)"
  shows "b1 = length (builders w) \<and> b2 = Suc (length (builders w))"
    and "\<forall>a < length (builders w). this_props w1 a = this_props w a \<and> this_props w2 a = this_props w a"
    and "\<forall>n < length (nodes w). nodes w1 ! n = nodes w ! n \<and> nodes w2 ! n = nodes w ! n"
    and "calls w1 = calls w \<and> calls w2 = calls w"
    and "nodes w2 ! queryNode (this_props w2 b1) = nodes w2 ! queryNode (this_props w2 b2)"
    and "queryNode (this_props w2 b1) = length (nodes w)
         \<and> queryNode (this_props w2 b2) = Suc (length (nodes w))"
proof -
  from valid have b: "b < length (builders w)" and n: "queryNode (this_props w b) < length (nodes w)"
    by (simp_all add: valid_builder_def)
  note f = edited_once [OF first]
  note s = edited_once [OF second]
  from f(4) [OF b] have pb: "this_props w1 b = this_props w b" .
  show "b1 = length (builders w) \<and> b2 = Suc (length (builders w))"
    using f(1) f(2) s(1) by simp
  show "\<forall>a < length (builders w). this_props w1 a = this_props w a \<and> this_props w2 a = this_props w a"
    using f(4) s(4) f(2) by simp
  show "\<forall>n < length (nodes w). nodes w1 ! n = nodes w ! n \<and> nodes w2 ! n = nodes w ! n"
    using f(5) s(5) f(3) by simp
  show "calls w1 = calls w \<and> calls w2 = calls w"
    using f(8) s(8) by simp
  have p1: "this_props w2 b1 = (this_props w b)\<lparr>queryNode := length (nodes w)\<rparr>"
    using s(4) [of b1] f(1) f(2) f(6) by simp
  have p2: "this_props w2 b2 = (this_props w b)\<lparr>queryNode := Suc (length (nodes w))\<rparr>"
    using s(6) pb f(3) by simp
  show "queryNode (this_props w2 b1) = length (nodes w)
         \<and> queryNode (this_props w2 b2) = Suc (length (nodes w))"
    using p1 p2 by simp
  have "nodes w2 ! length (nodes w) = change (nodes w ! queryNode (this_props w b))"
    using s(5) [of "length (nodes w)"] f(3) f(7) by simp
  moreover have "nodes w2 ! Suc (length (nodes w)) = change (nodes w ! queryNode (this_props w b))"
    using s(7) f(3) pb f(5) [OF n] by simp
  ultimately show "nodes w2 ! queryNode (this_props w2 b1) = nodes w2 ! queryNode (this_props w2 b2)"
    using p1 p2 by simp
qed

lemma withPlugin_twice:
  assumes valid: "valid_builder w b"
    and first: "withPlugin plugin b w = (b1, w1)"
    and second: "withPlugin plugin b w1 = (b2, w2)"
  shows "b1 = length (builders w) \<and> b2 = Suc (length (builders w))"
    and "\<forall>a < length (builders w). this_props w1 a = this_props w a \<and> this_props w2 a = this_props w a"
    and "nodes w1 = nodes w \<and> nodes w2 = nodes w"
    and "calls w1 = calls w \<and> calls w2 = calls w"
    and "queryNode (this_props w2 b1) = queryNode (this_props w b)
         \<and> queryNode (this_props w2 b2) = queryNode (this_props w b)"
proof -
  from valid have b: "b < length (builders w)"
    by (simp add: valid_builder_def)
  note f = withPlugin_once [OF first]
  note s = withPlugin_once [OF second]
  from f(4) [OF b] have pb: "this_props w1 b = this_props w b" .
  show "b1 = length (builders w) \<and> b2 = Suc (length (builders w))"
    using f(1) f(2) s(1) by simp
  show "\<forall>a < length (builders w). this_props w1 a = this_props w a \<and> this_props w2 a = this_props w a"
    using f(4) s(4) f(2) by simp
  show "nodes w1 = nodes w \<and> nodes w2 = nodes w"
    using f(3) s(3) by simp
  show "calls w1 = calls w \<and> calls w2 = calls w"
    using f(6) s(6) by simp
  have "this_props w2 b1 = this_props w1 b1"
    using s(4) [of b1] f(1) f(2) by simp
  then show "queryNode (this_props w2 b1) = queryNode (this_props w b)
         \<and> queryNode (this_props w2 b2) = queryNode (this_props w b)"
    using f(5) s(5) pb by simp
qed

text \<open>
  C1, as amended. Let \<open>m\<close> be one of the nine methods with its arguments, called on a
  builder \<open>b\<close>, and then called on \<open>b\<close> again with the same arguments. Each call
  returns a new builder (an address that was not allocated before). Every builder and
  every node that existed before keeps its content; in particular \<open>b\<close> has the same
  query id, the same query node and the same executor after the calls. The roots of
  the two returned builders are structurally equal. For the eight methods that edit
  the node, the two roots are distinct objects, and distinct from the root of \<open>b\<close>.
  For \<^verbatim>\<open>withPlugin\<close> both returned builders hold the very root object of \<open>b\<close>: the
  method copies the reference and builds no node.
\<close>

theorem builder_methods_leave_builder_unchanged:
  assumes m: "m \<in> {values_method parseInsertExpression ins, columns cols,
                    expression parseExpression expr, ignore, onConflict callback,
                    onDuplicateKeyUpdate parseUpdateExpression update,
                    returning cloneWithReturning parseSelectArg selection,
                    returningAll cloneWithReturning parseSelectAll,
                    withPlugin plugin}"
    and valid: "valid_builder w b"
    and first: "m b w = (b1, w1)"
    and second: "m b w1 = (b2, w2)"
  shows "b1 = length (builders w) \<and> b2 = Suc (length (builders w))
       \<and> (\<forall>a < length (builders w).
             this_props w1 a = this_props w a \<and> this_props w2 a = this_props w a)
       \<and> (\<forall>n < length (nodes w). nodes w1 ! n = nodes w ! n \<and> nodes w2 ! n = nodes w ! n)
       \<and> this_props w1 b = this_props w b \<and> this_props w2 b = this_props w b
       \<and> nodes w1 ! queryNode (this_props w b) = nodes w ! queryNode (this_props w b)
       \<and> nodes w2 ! queryNode (this_props w b) = nodes w ! queryNode (this_props w b)
       \<and> nodes w2 ! queryNode (this_props w2 b1) = nodes w2 ! queryNode (this_props w2 b2)
       \<and> (m \<in> {values_method parseInsertExpression ins, columns cols,
                 expression parseExpression expr, ignore, onConflict callback,
                 onDuplicateKeyUpdate parseUpdateExpression update,
                 returning cloneWithReturning parseSelectArg selection,
                 returningAll cloneWithReturning parseSelectAll}
            \<longrightarrow> queryNode (this_props w2 b1) \<noteq> queryNode (this_props w2 b2)
              \<and> queryNode (this_props w2 b1) \<noteq> queryNode (this_props w b)
              \<and> queryNode (this_props w2 b2) \<noteq> queryNode (this_props w b))
       \<and> (m = withPlugin plugin
            \<longrightarrow> queryNode (this_props w2 b1) = queryNode (this_props w b)
              \<and> queryNode (this_props w2 b2) = queryNode (this_props w b))"
proof -
  from valid have b: "b < length (builders w)" and n: "queryNode (this_props w b) < length (nodes w)"
    by (simp_all add: valid_builder_def)
  from m have "m = withPlugin plugin \<or> (\<exists>change. m = edited change)"
    by (rule nine_cases)
  then have common: "b1 = length (builders w) \<and> b2 = Suc (length (builders w))
       \<and> (\<forall>a < length (builders w).
             this_props w1 a = this_props w a \<and> this_props w2 a = this_props w a)
       \<and> (\<forall>n < length (nodes w). nodes w1 ! n = nodes w ! n \<and> nodes w2 ! n = nodes w ! n)
       \<and> nodes w2 ! queryNode (this_props w2 b1) = nodes w2 ! queryNode (this_props w2 b2)"
  proof
    assume p: "m = withPlugin plugin"
    from first p have f: "withPlugin plugin b w = (b1, w1)" by simp
    from second p have s: "withPlugin plugin b w1 = (b2, w2)" by simp
    note t = withPlugin_twice [OF valid f s]
    from t(5) have "nodes w2 ! queryNode (this_props w2 b1) = nodes w2 ! queryNode (this_props w2 b2)"
      by simp
    with t(1) t(2) t(3) show ?thesis
      by simp
  next
    assume "\<exists>change. m = edited change"
    then obtain change where e: "m = edited change" ..
    from first e have f: "edited change b w = (b1, w1)" by simp
    from second e have s: "edited change b w1 = (b2, w2)" by simp
    note t = edited_twice [OF valid f s]
    from t(1) t(2) t(3) t(5) show ?thesis
      by blast
  qed
  have fresh: "queryNode (this_props w2 b1) \<noteq> queryNode (this_props w2 b2)
              \<and> queryNode (this_props w2 b1) \<noteq> queryNode (this_props w b)
              \<and> queryNode (this_props w2 b2) \<noteq> queryNode (this_props w b)"
    if eight: "m \<in> {values_method parseInsertExpression ins, columns cols,
                 expression parseExpression expr, ignore, onConflict callback,
                 onDuplicateKeyUpdate parseUpdateExpression update,
                 returning cloneWithReturning parseSelectArg selection,
                 returningAll cloneWithReturning parseSelectAll}"
  proof -
    from eight have "\<exists>change. m = edited change"
      by (rule editing_methods_edited)
    then obtain change where e: "m = edited change" ..
    from first e have f: "edited change b w = (b1, w1)" by simp
    from second e have s: "edited change b w1 = (b2, w2)" by simp
    from edited_twice(6) [OF valid f s] n show ?thesis
      by simp
  qed
  have shared: "queryNode (this_props w2 b1) = queryNode (this_props w b)
              \<and> queryNode (this_props w2 b2) = queryNode (this_props w b)"
    if p: "m = withPlugin plugin"
  proof -
    from first p have f: "withPlugin plugin b w = (b1, w1)" by simp
    from second p have s: "withPlugin plugin b w1 = (b2, w2)" by simp
    from withPlugin_twice(5) [OF valid f s] show ?thesis .
  qed
  from common b n have frame: "this_props w1 b = this_props w b \<and> this_props w2 b = this_props w b
       \<and> nodes w1 ! queryNode (this_props w b) = nodes w ! queryNode (this_props w b)
       \<and> nodes w2 ! queryNode (this_props w b) = nodes w ! queryNode (this_props w b)"
    by blast
  from fresh have c1: "m \<in> {values_method parseInsertExpression ins, columns cols,
                 expression parseExpression expr, ignore, onConflict callback,
                 onDuplicateKeyUpdate parseUpdateExpression update,
                 returning cloneWithReturning parseSelectArg selection,
                 returningAll cloneWithReturning parseSelectAll}
            \<longrightarrow> queryNode (this_props w2 b1) \<noteq> queryNode (this_props w2 b2)
              \<and> queryNode (this_props w2 b1) \<noteq> queryNode (this_props w b)
              \<and> queryNode (this_props w2 b2) \<noteq> queryNode (this_props w b)" ..
  from shared have c2: "m = withPlugin plugin
            \<longrightarrow> queryNode (this_props w2 b1) = queryNode (this_props w b)
              \<and> queryNode (this_props w2 b2) = queryNode (this_props w b)" ..
  from common frame c1 c2 show ?thesis
    by - (elim conjE, intro conjI; assumption)
qed

text \<open>
  As stated, C1 asks that the two roots never be the same reference. Two calls of
  \<^verbatim>\<open>withPlugin\<close> return builders with one and the same root reference.
\<close>

theorem withPlugin_twice_shares_root:
  "queryNode (this_props
       (snd (withPlugin identity_plugin 0
          (snd (withPlugin identity_plugin 0 (store person_insert (person_executor False []))))))
       (fst (withPlugin identity_plugin 0 (store person_insert (person_executor False [])))))
     = queryNode (this_props
       (snd (withPlugin identity_plugin 0
          (snd (withPlugin identity_plugin 0 (store person_insert (person_executor False []))))))
       (fst (withPlugin identity_plugin 0
          (snd (withPlugin identity_plugin 0 (store person_insert (person_executor False [])))))))
   \<and> queryNode (this_props
       (snd (withPlugin identity_plugin 0
          (snd (withPlugin identity_plugin 0 (store person_insert (person_executor False []))))))
       (fst (withPlugin identity_plugin 0 (store person_insert (person_executor False [])))))
     = queryNode (this_props (store person_insert (person_executor False [])) 0)"
  by (simp add: withPlugin_unfolded this_props_def store_def)

theorem builder_methods_leave_builder_unchanged_witness:
  "valid_builder (store person_insert (person_executor False [])) 0
   \<and> fst (ignore 0 (store person_insert (person_executor False []))) = 1
   \<and> fst (ignore 0 (snd (ignore 0 (store person_insert (person_executor False []))))) = 2
   \<and> this_props (snd (ignore 0 (snd (ignore 0 (store person_insert (person_executor False []))))))
        0 = this_props (store person_insert (person_executor False [])) 0
   \<and> nodes (snd (ignore 0 (snd (ignore 0 (store person_insert (person_executor False []))))))
        ! queryNode (this_props
            (snd (ignore 0 (snd (ignore 0 (store person_insert (person_executor False [])))))) 1)
       = nodes (snd (ignore 0 (snd (ignore 0 (store person_insert (person_executor False []))))))
        ! queryNode (this_props
            (snd (ignore 0 (snd (ignore 0 (store person_insert (person_executor False [])))))) 2)
   \<and> queryNode (this_props
          (snd (ignore 0 (snd (ignore 0 (store person_insert (person_executor False [])))))) 1)
       \<noteq> queryNode (this_props
          (snd (ignore 0 (snd (ignore 0 (store person_insert (person_executor False [])))))) 2)"
proof -
  let ?w = "store person_insert (person_executor False [])"
  let ?w1 = "snd (ignore 0 ?w)"
  let ?w2 = "snd (ignore 0 ?w1)"
  have nine: "ignore \<in> {values_method (\<lambda>u::unit. ([], OnConflictNode_create)) (), columns [],
                    expression (\<lambda>u::unit. OnConflictNode_create) (), ignore, onConflict id,
                    onDuplicateKeyUpdate (\<lambda>u::unit. []) (),
                    returning (\<lambda>n s. n) (\<lambda>u::unit. []) (),
                    returningAll (\<lambda>n s. n) [],
                    withPlugin identity_plugin}"
    by simp
  have eight: "ignore \<in> {values_method (\<lambda>u::unit. ([], OnConflictNode_create)) (), columns [],
                    expression (\<lambda>u::unit. OnConflictNode_create) (), ignore, onConflict id,
                    onDuplicateKeyUpdate (\<lambda>u::unit. []) (),
                    returning (\<lambda>n s. n) (\<lambda>u::unit. []) (),
                    returningAll (\<lambda>n s. n) []}"
    by simp
  have valid: "valid_builder ?w 0"
    by (simp add: valid_builder_def this_props_def store_def)
  have first: "ignore 0 ?w = (1, ?w1)"
    by (simp add: ignore_edited edited_def store_def)
  have second: "ignore 0 ?w1 = (2, ?w2)"
    by (simp add: ignore_edited edited_def store_def)
  have f1: "fst (ignore 0 ?w) = 1"
    by (simp add: ignore_edited edited_def store_def)
  have f2: "fst (ignore 0 ?w1) = 2"
    by (simp add: ignore_edited edited_def store_def)
  from builder_methods_leave_builder_unchanged [OF nine valid first second] eight
  have "this_props ?w2 0 = this_props ?w 0
      \<and> nodes ?w2 ! queryNode (this_props ?w2 1) = nodes ?w2 ! queryNode (this_props ?w2 2)
      \<and> queryNode (this_props ?w2 1) \<noteq> queryNode (this_props ?w2 2)"
    by blast
  with valid f1 f2 show ?thesis
    by blast
qed


lemma dollar_if_False_unfolded:
  "dollar_if False func b w = (length (builders w), w\<lparr>builders := builders w @ [this_props w b]\<rparr>)"
  by (simp add: dollar_if_def new_InsertQueryBuilder_def)

text \<open>
  C5. With a true flag \<^verbatim>\<open>$if\<close> returns what the function returns for the builder.
  With a false flag it returns a builder with the props of the current one (the same
  query id, the same query root, the same executor) and never applies the function:
  the result is the same for every function, no node is built and the executor is not
  called. The object returned is a new builder holding these props, as the code's
  \<^verbatim>\<open>new InsertQueryBuilder({...this.#props})\<close> says.
\<close>

theorem dollar_if_applies_func_only_when_true:
  "dollar_if True func b w = func b w
   \<and> fst (dollar_if False func b w) = length (builders w)
   \<and> this_props (snd (dollar_if False func b w)) (fst (dollar_if False func b w)) = this_props w b
   \<and> queryId (this_props (snd (dollar_if False func b w)) (fst (dollar_if False func b w)))
       = queryId (this_props w b)
   \<and> queryNode (this_props (snd (dollar_if False func b w)) (fst (dollar_if False func b w)))
       = queryNode (this_props w b)
   \<and> executor (this_props (snd (dollar_if False func b w)) (fst (dollar_if False func b w)))
       = executor (this_props w b)
   \<and> nodes (snd (dollar_if False func b w)) = nodes w
   \<and> builders (snd (dollar_if False func b w)) = builders w @ [this_props w b]
   \<and> calls (snd (dollar_if False func b w)) = calls w
   \<and> dollar_if False func b w = dollar_if False other b w"
  by (simp add: dollar_if_False_unfolded this_props_def) (simp add: dollar_if_def)

text \<open>
  C8. \<^verbatim>\<open>withPlugin(plugin)\<close> returns a new builder whose executor is what the old
  executor's \<^verbatim>\<open>withPlugin(plugin)\<close> returns; its query node and its query id are
  those of the original builder. No node is built, the executor is not called, and
  every existing builder, the original one among them, keeps its props and so its
  executor.
\<close>

theorem withPlugin_changes_executor_only:
  "fst (withPlugin plugin b w) = length (builders w)
   \<and> executor (this_props (snd (withPlugin plugin b w)) (fst (withPlugin plugin b w)))
       = exec_withPlugin (executor (this_props w b)) plugin
   \<and> queryNode (this_props (snd (withPlugin plugin b w)) (fst (withPlugin plugin b w)))
       = queryNode (this_props w b)
   \<and> queryId (this_props (snd (withPlugin plugin b w)) (fst (withPlugin plugin b w)))
       = queryId (this_props w b)
   \<and> nodes (snd (withPlugin plugin b w)) = nodes w
   \<and> calls (snd (withPlugin plugin b w)) = calls w
   \<and> (\<forall>a < length (builders w).
         this_props (snd (withPlugin plugin b w)) a = this_props w a)"
  by (simp add: withPlugin_unfolded this_props_def nth_append)

theorem withPlugin_changes_executor_only_witness:
  "fst (withPlugin identity_plugin 0 (store person_insert (person_executor False []))) = 1
   \<and> executor (this_props
         (snd (withPlugin identity_plugin 0 (store person_insert (person_executor False [])))) 1)
       = spec_executor False person_compiler (person_driver []) person_cursor [identity_plugin]
   \<and> executor (this_props
         (snd (withPlugin identity_plugin 0 (store person_insert (person_executor False [])))) 0)
       = spec_executor False person_compiler (person_driver []) person_cursor []"
  using withPlugin_changes_executor_only [of identity_plugin 0 "store person_insert (person_executor False [])"]
  by (simp add: withPlugin_unfolded store_def this_props_def person_executor_def)

subsection \<open>The query id\<close>













end
